theory Spec2Isabelle
  imports Complex_Main "HOL-Library.Word"
begin

section \<open>Python values\<close>

text \<open>
  The values the client handles are the ones \<open>response.json()\<close> produces, together with
  Python's \<open>None\<close>, which JSON's \<open>null\<close> decodes to. Numbers are kept as exact rationals
  (integers and decimal fractions; the rounding of binary floats is not modelled). A JSON
  object is the list of its items, read with \<open>map_of\<close>.
\<close>

datatype json =
    JNull
  | JBool bool
  | JNum rat
  | JStr string
  | JArr "json list"
  | JObj "(string \<times> json) list"

text \<open>Python's truth value of an object, as \<open>if x:\<close>, \<open>not x\<close> and \<open>bool(x)\<close> take it.\<close>

fun truthy :: "json \<Rightarrow> bool" where
  "truthy JNull = False"
| "truthy (JBool b) = b"
| "truthy (JNum n) = (n \<noteq> 0)"
| "truthy (JStr s) = (s \<noteq> [])"
| "truthy (JArr xs) = (xs \<noteq> [])"
| "truthy (JObj kvs) = (kvs \<noteq> [])"

text \<open>The truth value of a \<open>str | None\<close>.\<close>

fun truthy_str :: "string option \<Rightarrow> bool" where
  "truthy_str None = False"
| "truthy_str (Some s) = (s \<noteq> [])"

subsection \<open>Exceptions\<close>

text \<open>
  \<open>VeoliaAPIError\<close> is raised with these messages; the two that interpolate values carry
  them as arguments instead of rendering the text.
\<close>

datatype veolia_msg =
    Invalid_username_or_password
  | API_call_failed string nat      \<comment> \<open>"API call to {full_url} failed with status {status}"\<close>
  | Authorization_code_not_found
  | Unexpected_200_response string  \<comment> \<open>"Unexpected 200 response from {full_url}"\<close>
  | Username_or_password_not_provided
  | Token_API_call_error
  | Access_token_not_found
  | Espace_client_call_error
  | Some_user_data_not_found
  | Facturation_call_error
  | Numero_pds_not_found
  | Date_debut_abonnement_not_found
  | Get_alerts_call_error nat       \<comment> \<open>"Get alerts call error status code {status}"\<close>

datatype error =
    VeoliaAPIError veolia_msg
  | ValueError
  | KeyError
  | IndexError
  | TypeError
  | AttributeError
  | JSONDecodeError                 \<comment> \<open>raised by \<open>response.json()\<close> on a body that is not JSON\<close>
  | ClientError                     \<comment> \<open>raised by the transport when no response arrives\<close>

text \<open>Sequencing of computations that may raise: the first exception wins.\<close>

fun bind_e :: "error + 'a \<Rightarrow> ('a \<Rightarrow> error + 'b) \<Rightarrow> error + 'b" where
  "bind_e (Inl e) f = Inl e"
| "bind_e (Inr x) f = f x"

subsection \<open>Reading values\<close>

text \<open>\<open>d.get(key, default)\<close>: only a dict has the method.\<close>

fun py_get :: "json \<Rightarrow> string \<Rightarrow> json \<Rightarrow> error + json" where
  "py_get (JObj kvs) k d = (case map_of kvs k of None \<Rightarrow> Inr d | Some v \<Rightarrow> Inr v)"
| "py_get _ k d = Inl AttributeError"

text \<open>\<open>d[key]\<close> with a string key: a dict without the key raises KeyError, every other
  value raises TypeError (a list or a string wants an integer index, the rest are not
  subscriptable).\<close>

fun py_getitem :: "json \<Rightarrow> string \<Rightarrow> error + json" where
  "py_getitem (JObj kvs) k = (case map_of kvs k of None \<Rightarrow> Inl KeyError | Some v \<Rightarrow> Inr v)"
| "py_getitem _ k = Inl TypeError"

text \<open>\<open>x[0]\<close>: the first element of a list or the first character of a string; the keys of
  a JSON object are strings, so \<open>0\<close> is never one of them.\<close>

fun py_index0 :: "json \<Rightarrow> error + json" where
  "py_index0 (JArr []) = Inl IndexError"
| "py_index0 (JArr (x # xs)) = Inr x"
| "py_index0 (JStr []) = Inl IndexError"
| "py_index0 (JStr (c # cs)) = Inr (JStr [c])"
| "py_index0 (JObj kvs) = Inl KeyError"
| "py_index0 _ = Inl TypeError"

section \<open>model.py\<close>

text \<open>
  The dataclass \<open>AlertSettings\<close> declares eight fields, all without a default. The
  annotations are not enforced at run time, so a field holds any value.
\<close>

record AlertSettings =
  daily_enabled :: json
  daily_threshold :: json
  daily_notif_email :: json
  daily_notif_sms :: json
  monthly_enabled :: json
  monthly_threshold :: json
  monthly_notif_email :: json
  monthly_notif_sms :: json

definition AlertSettings_fields :: "string list" where
  "AlertSettings_fields =
     [''daily_enabled'', ''daily_threshold'', ''daily_notif_email'', ''daily_notif_sms'',
      ''monthly_enabled'', ''monthly_threshold'', ''monthly_notif_email'',
      ''monthly_notif_sms'']"

text \<open>
  The generated \<open>__init__\<close> called with keyword arguments only: a keyword that is not a
  field, or a field that gets no value, raises TypeError.
\<close>

definition AlertSettings_init :: "(string \<times> json) list \<Rightarrow> error + AlertSettings" where
  "AlertSettings_init kwargs =
     (if \<not> list_all (\<lambda>k. k \<in> set AlertSettings_fields) (map fst kwargs) then Inl TypeError
      else
        (case (map_of kwargs ''daily_enabled'', map_of kwargs ''daily_threshold'',
               map_of kwargs ''daily_notif_email'', map_of kwargs ''daily_notif_sms'',
               map_of kwargs ''monthly_enabled'', map_of kwargs ''monthly_threshold'',
               map_of kwargs ''monthly_notif_email'', map_of kwargs ''monthly_notif_sms'') of
           (Some a, Some b, Some c, Some d, Some e, Some f, Some g, Some h) \<Rightarrow>
             Inr \<lparr>daily_enabled = a, daily_threshold = b, daily_notif_email = c,
                  daily_notif_sms = d, monthly_enabled = e, monthly_threshold = f,
                  monthly_notif_email = g, monthly_notif_sms = h\<rparr>
         | _ \<Rightarrow> Inl TypeError))"

text \<open>Reading an attribute by its name: a name that is not a field raises AttributeError.\<close>

definition AlertSettings_getattr :: "AlertSettings \<Rightarrow> string \<Rightarrow> error + json" where
  "AlertSettings_getattr a name =
     (if name = ''daily_enabled'' then Inr (daily_enabled a)
      else if name = ''daily_threshold'' then Inr (daily_threshold a)
      else if name = ''daily_notif_email'' then Inr (daily_notif_email a)
      else if name = ''daily_notif_sms'' then Inr (daily_notif_sms a)
      else if name = ''monthly_enabled'' then Inr (monthly_enabled a)
      else if name = ''monthly_threshold'' then Inr (monthly_threshold a)
      else if name = ''monthly_notif_email'' then Inr (monthly_notif_email a)
      else if name = ''monthly_notif_sms'' then Inr (monthly_notif_sms a)
      else Inl AttributeError)"

text \<open>
  \<open>VeoliaAccountData\<close>: every field has a default, \<open>None\<close> but for \<open>token_expiration\<close>,
  which starts at 0. The fields filled from JSON responses hold whatever value the
  response had; \<open>code\<close> and \<open>verifier\<close> hold a string or \<open>None\<close>.
\<close>

record VeoliaAccountData =
  access_token :: json
  token_expiration :: rat
  code :: "string option"
  verifier :: "string option"
  id_abonnement :: json
  numero_pds :: json
  contact_id :: json
  tiers_id :: json
  numero_compteur :: json
  date_debut_abonnement :: json
  monthly_consumption :: json
  daily_consumption :: json
  alert_settings :: "AlertSettings option"

definition VeoliaAccountData_init :: VeoliaAccountData where
  "VeoliaAccountData_init =
     \<lparr>access_token = JNull, token_expiration = 0, code = None, verifier = None,
      id_abonnement = JNull, numero_pds = JNull, contact_id = JNull, tiers_id = JNull,
      numero_compteur = JNull, date_debut_abonnement = JNull, monthly_consumption = JNull,
      daily_consumption = JNull, alert_settings = None\<rparr>"

section \<open>constants.py\<close>

definition LOGIN_URL :: string where
  "LOGIN_URL = ''https://cognito-idp.eu-west-3.amazonaws.com''"

definition BACKEND_ISTEFR :: string where
  "BACKEND_ISTEFR = ''https://prd-ael-sirius-backend.istefr.fr''"

definition CALLBACK_ENDPOINT :: string where
  "CALLBACK_ENDPOINT = ''/callback''"

definition TYPE_FRONT :: string where
  "TYPE_FRONT = ''WEB_ORDINATEUR''"

text \<open>
  \<open>veolia_api.py\<close> imports further names from \<open>constants.py\<close> that the file does not
  define: the flow table \<open>API_CONNECTION_FLOW\<close>, three endpoint paths, \<open>BASE_URL\<close>,
  \<open>CLIENT_ID\<close>, \<open>CODE_CHALLENGE_METHODE\<close> and \<open>OAUTH_TOKEN\<close>. They are parameters of the
  model, collected in the record \<open>env\<close>, and every theorem holds for all their values.

  An entry of the flow table gives the HTTP method of the step, its parameter builder (a
  callable, or a false value when the step has none) and the status that means success.
  A builder receives the correlation state followed by the step's own arguments, each a
  \<open>str | None\<close>, and returns the dict of parameters or raises.
\<close>

type_synonym params = "(string \<times> json) list"

record flow_config =
  http_method :: string
  params_builder :: "(string option list \<Rightarrow> error + params) option"
  success_status :: nat

type_synonym bytes = "8 word list"

text \<open>
  Two library functions are parameters as well: \<open>hashlib.sha256(data).digest()\<close> and the
  rendering \<open>str(x)\<close> of a value that is not already a string.
\<close>

record env =
  API_CONNECTION_FLOW :: "string \<Rightarrow> flow_config option"
  AUTHORIZE_ENDPOINT :: string
  LOGIN_IDENTIFIER_ENDPOINT :: string
  LOGIN_PASSWORD_ENDPOINT :: string
  BASE_URL :: string
  CLIENT_ID :: string
  CODE_CHALLENGE_METHODE :: string
  OAUTH_TOKEN :: string
  hashlib_sha256 :: "bytes \<Rightarrow> bytes"
  str_of :: "json \<Rightarrow> string"

text \<open>\<open>str(x)\<close>, and \<open>{x}\<close> inside an f-string: a string is rendered as itself.\<close>

fun py_str :: "env \<Rightarrow> json \<Rightarrow> string" where
  "py_str e (JStr s) = s"
| "py_str e v = str_of e v"

section \<open>The world outside the client\<close>

text \<open>
  A response as the client reads it: the status, the \<open>Location\<close> header and the body.
  The header is held in the form \<open>urlparse\<close> and \<open>parse_qs\<close> read it: the path, and the
  query string as its decoded pairs in order. The body is the value \<open>response.json()\<close>
  gives, or \<open>None\<close> when it is not JSON.
\<close>

record url =
  path :: string
  query :: "(string \<times> string) list"

record response =
  status :: nat
  location :: "url option"
  body :: "json option"

datatype payload =
    NoPayload
  | Query params      \<comment> \<open>\<open>params=\<close>: the query string of a GET\<close>
  | Form params       \<comment> \<open>\<open>data=urlencode(params)\<close>: a form-encoded body\<close>
  | JsonBody json     \<comment> \<open>\<open>json=\<close>: a JSON body\<close>

record request =
  req_method :: string
  req_url :: string
  req_headers :: "(string \<times> string) list"
  req_payload :: payload

text \<open>
  The world holds the responses the servers will give, in the order of the requests; the
  requests issued so far; the clock (the reading of the \<open>k\<close>-th call of
  \<open>datetime.now().timestamp()\<close>); and the random source (the bytes of the \<open>k\<close>-th call of
  \<open>os.urandom\<close>). A request that finds no response left ends in a transport error, so an
  exchange that never ends is represented by its finite prefixes.
  Timestamps are exact rationals, and adding a \<open>timedelta\<close> is addition: the range
  limits of \<open>datetime\<close> and the rounding of floats are outside the model.
\<close>

record world =
  pending :: "response list"
  sent :: "request list"
  clock :: "nat \<Rightarrow> rat"
  ticks :: nat
  entropy :: "nat \<Rightarrow> bytes"
  draws :: nat

definition http_request :: "request \<Rightarrow> world \<Rightarrow> (error + response) \<times> world" where
  "http_request r w =
     (case pending w of
        [] \<Rightarrow> (Inl ClientError, w\<lparr>sent := sent w @ [r]\<rparr>)
      | x # xs \<Rightarrow> (Inr x, w\<lparr>pending := xs, sent := sent w @ [r]\<rparr>))"

definition datetime_now :: "world \<Rightarrow> rat \<times> world" where
  "datetime_now w = (clock w (ticks w), w\<lparr>ticks := Suc (ticks w)\<rparr>)"

definition os_urandom :: "nat \<Rightarrow> world \<Rightarrow> bytes \<times> world" where
  "os_urandom n w = (take n (entropy w (draws w)), w\<lparr>draws := Suc (draws w)\<rparr>)"

text \<open>\<open>response.json()\<close>.\<close>

definition response_json :: "response \<Rightarrow> error + json" where
  "response_json r = (case body r of None \<Rightarrow> Inl JSONDecodeError | Some j \<Rightarrow> Inr j)"

text \<open>\<open>urlparse(response.headers.get("Location"))\<close>: without the header every component
  is empty.\<close>

definition urlparse :: "url option \<Rightarrow> url" where
  "urlparse h = (case h of None \<Rightarrow> \<lparr>path = [], query = []\<rparr> | Some u \<Rightarrow> u)"

text \<open>\<open>parse_qs(query).get(key)\<close>: the values of the key in order, blank values left
  out; a key with no value left is not in the dict.\<close>

definition parse_qs :: "(string \<times> string) list \<Rightarrow> string \<Rightarrow> string list option" where
  "parse_qs q k =
     (case map snd (filter (\<lambda>(k', v). k' = k \<and> v \<noteq> []) q) of
        [] \<Rightarrow> None
      | vs \<Rightarrow> Some vs)"

section \<open>veolia_api.py\<close>

text \<open>The client: the credentials and the account data. The HTTP session is the world,
  and the flow table is \<open>API_CONNECTION_FLOW\<close>, which \<open>api_flow\<close> is set to once.\<close>

record VeoliaAPI =
  username :: string
  password :: string
  account_data :: VeoliaAccountData

definition VeoliaAPI_init :: "string \<Rightarrow> string \<Rightarrow> VeoliaAPI" where
  "VeoliaAPI_init u p = \<lparr>username = u, password = p, account_data = VeoliaAccountData_init\<rparr>"

subsection \<open>Crypto helpers\<close>

definition b64_alphabet :: string where
  "b64_alphabet = ''ABCDEFGHIJKLMNOPQRSTUVWXYZabcdefghijklmnopqrstuvwxyz0123456789-_''"

definition b64_char :: "nat \<Rightarrow> char" where
  "b64_char i = b64_alphabet ! (i mod 64)"

text \<open>\<open>base64.urlsafe_b64encode\<close>: three bytes give four characters, and a last group
  of one or two bytes is padded with \<open>=\<close>.\<close>

fun urlsafe_b64encode :: "bytes \<Rightarrow> string" where
  "urlsafe_b64encode (a # b # c # rest) =
     (let n = unat a * 65536 + unat b * 256 + unat c
      in b64_char (n div 262144) # b64_char (n div 4096) # b64_char (n div 64) # b64_char n
           # urlsafe_b64encode rest)"
| "urlsafe_b64encode [a, b] =
     (let n = unat a * 1024 + unat b * 4
      in [b64_char (n div 4096), b64_char (n div 64), b64_char n, CHR ''=''])"
| "urlsafe_b64encode [a] =
     (let n = unat a * 16 in [b64_char (n div 64), b64_char n, CHR ''='', CHR ''=''])"
| "urlsafe_b64encode [] = []"

definition rstrip_eq :: "string \<Rightarrow> string" where
  "rstrip_eq s = rev (dropWhile (\<lambda>c. c = CHR ''='') (rev s))"

definition base64_url_encode :: "bytes \<Rightarrow> string" where
  "base64_url_encode data = rstrip_eq (urlsafe_b64encode data)"

definition sha256 :: "env \<Rightarrow> bytes \<Rightarrow> bytes" where
  "sha256 e data = hashlib_sha256 e data"

text \<open>\<open>s.encode("utf-8")\<close> of a string of ASCII characters.\<close>

definition encode_utf8 :: "string \<Rightarrow> bytes" where
  "encode_utf8 s = map (\<lambda>c. word_of_nat (of_char c)) s"

subsection \<open>The authorize step's parameters\<close>

definition auth0_client_tag :: string where
  \<open>auth0_client_tag = ''{"name": "auth0-react", "version": "1.11.0"}''\<close>

text \<open>\<open>_get_authorize_params\<close>: the argument \<open>state\<close> is overwritten by the first
  assignment. The verifier is stored on the account data.\<close>

definition get_authorize_params ::
  "env \<Rightarrow> VeoliaAPI \<Rightarrow> world \<Rightarrow> string option \<Rightarrow> params \<times> VeoliaAPI \<times> world" where
  "get_authorize_params e self w state =
     (case os_urandom 32 w of (r1, w1) \<Rightarrow>
      case os_urandom 32 w1 of (r2, w2) \<Rightarrow>
      case os_urandom 32 w2 of (r3, w3) \<Rightarrow>
        let state = base64_url_encode r1;
            nonce = base64_url_encode r2;
            verifier = base64_url_encode r3;
            challenge = base64_url_encode (sha256 e (encode_utf8 verifier));
            self1 = self\<lparr>account_data := (account_data self)\<lparr>verifier := Some verifier\<rparr>\<rparr>
        in ([(''audience'', JStr BACKEND_ISTEFR),
             (''redirect_uri'', JStr (BASE_URL e @ CALLBACK_ENDPOINT)),
             (''client_id'', JStr (CLIENT_ID e)),
             (''scope'', JStr ''openid profile email offline_access''),
             (''response_type'', JStr ''code''),
             (''state'', JStr state),
             (''nonce'', JStr nonce),
             (''response_mode'', JStr ''query''),
             (''code_challenge'', JStr challenge),
             (''code_challenge_method'', JStr (CODE_CHALLENGE_METHODE e)),
             (''auth0Client'', JStr (base64_url_encode (encode_utf8 auth0_client_tag)))],
            self1, w3))"

subsection \<open>The flow engine\<close>

text \<open>\<open>send_request\<close> (the logging left out): a GET carries the parameters in the query
  string, a POST as a form; any other method raises before anything is sent.\<close>

definition send_request ::
  "string \<Rightarrow> string \<Rightarrow> params \<Rightarrow> world \<Rightarrow> (error + response) \<times> world" where
  "send_request url meth ps w =
     (if meth = ''GET'' then
        http_request \<lparr>req_method = ''GET'', req_url = url, req_headers = [],
                      req_payload = Query ps\<rparr> w
      else if meth = ''POST'' then
        http_request \<lparr>req_method = ''POST'', req_url = url,
                      req_headers = [(''Content-Type'', ''application/x-www-form-urlencoded''),
                                     (''Cache-Control'', ''no-cache'')],
                      req_payload = Form ps\<rparr> w
      else (Inl ValueError, w))"

definition get_full_url :: "env \<Rightarrow> string \<Rightarrow> string" where
  "get_full_url e next_url =
     (if next_url \<noteq> CALLBACK_ENDPOINT then LOGIN_URL @ next_url else BASE_URL e @ next_url)"

text \<open>Calling \<open>config["params"]\<close>: a value that is not callable raises TypeError.\<close>

definition call_builder :: "flow_config \<Rightarrow> string option list \<Rightarrow> error + params" where
  "call_builder config args =
     (case params_builder config of None \<Rightarrow> Inl TypeError | Some f \<Rightarrow> f args)"

text \<open>
  \<open>_get_params\<close>: the dict \<open>param_functions\<close> is keyed by the four endpoint constants, and
  where two of them are equal the later entry of the literal stands. Any other step calls
  its builder with the state alone, or has no parameters when it has no builder.
\<close>

definition get_params ::
  "env \<Rightarrow> VeoliaAPI \<Rightarrow> world \<Rightarrow> string \<Rightarrow> flow_config \<Rightarrow> string option
     \<Rightarrow> (error + params) \<times> VeoliaAPI \<times> world" where
  "get_params e self w next_url config current_state =
     (if next_url = CALLBACK_ENDPOINT then
        (call_builder config [current_state, code (account_data self)], self, w)
      else if next_url = LOGIN_PASSWORD_ENDPOINT e then
        (call_builder config [current_state, Some (username self), Some (password self)], self, w)
      else if next_url = LOGIN_IDENTIFIER_ENDPOINT e then
        (call_builder config [current_state, Some (username self)], self, w)
      else if next_url = AUTHORIZE_ENDPOINT e then
        (case get_authorize_params e self w current_state of
           (ps, self1, w1) \<Rightarrow> (Inr ps, self1, w1))
      else
        (case params_builder config of
           None \<Rightarrow> (Inr [], self, w)
         | Some f \<Rightarrow> (f [current_state], self, w)))"

text \<open>
  \<open>_handle_response\<close> returns the next step and the correlation state, or raises. The
  authorization code is stored before it is tested, so it stays stored when the test
  raises.
\<close>

definition handle_response ::
  "env \<Rightarrow> VeoliaAPI \<Rightarrow> response \<Rightarrow> string \<Rightarrow> string option \<Rightarrow> string
     \<Rightarrow> (error + string option \<times> string option) \<times> VeoliaAPI" where
  "handle_response e self resp next_url state full_url =
     (if status resp = 400 \<and> next_url = LOGIN_PASSWORD_ENDPOINT e then
        (Inl (VeoliaAPIError Invalid_username_or_password), self)
      else
        (case API_CONNECTION_FLOW e next_url of
           None \<Rightarrow> (Inl KeyError, self)
         | Some config \<Rightarrow>
             if status resp \<noteq> success_status config then
               (Inl (VeoliaAPIError (API_call_failed full_url (status resp))), self)
             else if status resp = 302 then
               (let redirect_url = urlparse (location resp);
                    next_url1 = path redirect_url;
                    state1 = (case parse_qs (query redirect_url) ''state'' of
                                Some (v # vs) \<Rightarrow> Some v
                              | _ \<Rightarrow> state)
                in if next_url1 = CALLBACK_ENDPOINT then
                     (case (case parse_qs (query redirect_url) ''code'' of
                              None \<Rightarrow> Inr None
                            | Some [] \<Rightarrow> Inl IndexError
                            | Some (v # vs) \<Rightarrow> Inr (Some v)) of
                        Inl err \<Rightarrow> (Inl err, self)
                      | Inr c \<Rightarrow>
                          let self1 = self\<lparr>account_data := (account_data self)\<lparr>code := c\<rparr>\<rparr>
                          in if truthy_str c then (Inr (Some next_url1, state1), self1)
                             else (Inl (VeoliaAPIError Authorization_code_not_found), self1))
                   else (Inr (Some next_url1, state1), self))
             else if status resp = 200 \<and> next_url = CALLBACK_ENDPOINT then
               (Inr (None, state), self)
             else (Inl (VeoliaAPIError (Unexpected_200_response full_url)), self)))"

text \<open>One turn of the loop of \<open>execute_flow\<close> (its body, lines 131 to 139).\<close>

definition flow_iter ::
  "env \<Rightarrow> VeoliaAPI \<Rightarrow> world \<Rightarrow> string \<Rightarrow> string option
     \<Rightarrow> (error + string option \<times> string option) \<times> VeoliaAPI \<times> world" where
  "flow_iter e self w next_url state =
     (case API_CONNECTION_FLOW e next_url of
        None \<Rightarrow> (Inl KeyError, self, w)
      | Some config \<Rightarrow>
          (case get_params e self w next_url config state of
             (Inl err, self1, w1) \<Rightarrow> (Inl err, self1, w1)
           | (Inr ps, self1, w1) \<Rightarrow>
               let full_url = (if truthy_str state
                               then get_full_url e next_url @ ''?state='' @ the state
                               else get_full_url e next_url)
               in (case send_request full_url (http_method config) ps w1 of
                     (Inl err, w2) \<Rightarrow> (Inl err, self1, w2)
                   | (Inr resp, w2) \<Rightarrow>
                       (case handle_response e self1 resp next_url state full_url of
                          (r, self2) \<Rightarrow> (r, self2, w2)))))"

lemma http_request_pending:
  "http_request r w = (Inr x, w') \<Longrightarrow> length (pending w') < length (pending w)"
  by (auto simp: http_request_def split: list.splits)

lemma http_request_pending_le:
  "http_request r w = (x, w') \<Longrightarrow> length (pending w') \<le> length (pending w)"
  by (auto simp: http_request_def split: list.splits)

lemma send_request_pending:
  "send_request u m ps w = (Inr x, w') \<Longrightarrow> length (pending w') < length (pending w)"
  by (auto simp: send_request_def split: if_splits dest: http_request_pending)

lemma send_request_pending_le:
  "send_request u m ps w = (x, w') \<Longrightarrow> length (pending w') \<le> length (pending w)"
  by (auto simp: send_request_def split: if_splits dest: http_request_pending_le)

lemma os_urandom_pending: "os_urandom n w = (r, w') \<Longrightarrow> pending w' = pending w"
  by (auto simp: os_urandom_def)

lemma get_authorize_params_pending:
  "get_authorize_params e self w st = (ps, self', w') \<Longrightarrow> pending w' = pending w"
  by (auto simp: get_authorize_params_def Let_def os_urandom_def split: prod.splits)

lemma get_params_pending:
  "get_params e self w n c st = (r, self', w') \<Longrightarrow> pending w' = pending w"
  by (auto simp: get_params_def split: if_splits prod.splits option.splits
      dest: get_authorize_params_pending)

lemma flow_iter_pending:
  "flow_iter e self w n st = (Inr x, self', w') \<Longrightarrow> length (pending w') < length (pending w)"
  by (auto simp: flow_iter_def Let_def split: option.splits prod.splits sum.splits
      dest!: get_params_pending send_request_pending)

lemma flow_iter_pending_le:
  "flow_iter e self w n st = (x, self', w') \<Longrightarrow> length (pending w') \<le> length (pending w)"
  by (auto simp: flow_iter_def Let_def split: option.splits prod.splits sum.splits
      dest!: get_params_pending send_request_pending_le)

text \<open>The loop \<open>while next_url:\<close> stops on \<open>None\<close> and on the empty string alike.\<close>

function flow_loop ::
  "env \<Rightarrow> VeoliaAPI \<Rightarrow> world \<Rightarrow> string option \<Rightarrow> string option
     \<Rightarrow> (error + unit) \<times> VeoliaAPI \<times> world" where
  "flow_loop e self w next_url state =
     (if truthy_str next_url then
        (case flow_iter e self w (the next_url) state of
           (Inl err, self1, w1) \<Rightarrow> (Inl err, self1, w1)
         | (Inr (next_url1, state1), self1, w1) \<Rightarrow> flow_loop e self1 w1 next_url1 state1)
      else (Inr (), self, w))"
  by pat_completeness auto
termination
  by (relation "measure (\<lambda>(e, self, w, n, st). length (pending w))")
     (auto dest: flow_iter_pending [OF sym])

definition execute_flow :: "env \<Rightarrow> VeoliaAPI \<Rightarrow> world \<Rightarrow> (error + unit) \<times> VeoliaAPI \<times> world" where
  "execute_flow e self w = flow_loop e self w (Some (AUTHORIZE_ENDPOINT e)) None"

subsection \<open>The token exchange\<close>

text \<open>\<open>timedelta(seconds=x)\<close> takes a number (a bool is one) and raises TypeError on
  anything else.\<close>

fun timedelta_seconds :: "json \<Rightarrow> error + rat" where
  "timedelta_seconds (JNum x) = Inr x"
| "timedelta_seconds (JBool b) = Inr (if b then 1 else 0)"
| "timedelta_seconds _ = Inl TypeError"

text \<open>A \<open>str | None\<close> as a value of a JSON body.\<close>

fun json_of_str :: "string option \<Rightarrow> json" where
  "json_of_str None = JNull"
| "json_of_str (Some s) = JStr s"

text \<open>
  \<open>get_access_token\<close>: the token is stored before it is tested; the clock is read before
  \<open>expires_in\<close> is turned into a \<open>timedelta\<close>.
\<close>

definition get_access_token ::
  "env \<Rightarrow> VeoliaAPI \<Rightarrow> world \<Rightarrow> (error + unit) \<times> VeoliaAPI \<times> world" where
  "get_access_token e self w =
     (let token_url = LOGIN_URL @ OAUTH_TOKEN e;
          req = \<lparr>req_method = ''POST'', req_url = token_url, req_headers = [],
                 req_payload = JsonBody (JObj
                   [(''client_id'', JStr (CLIENT_ID e)),
                    (''grant_type'', JStr ''authorization_code''),
                    (''code_verifier'', json_of_str (verifier (account_data self))),
                    (''code'', json_of_str (code (account_data self))),
                    (''redirect_uri'', JStr (BASE_URL e @ CALLBACK_ENDPOINT))])\<rparr>
      in case http_request req w of
           (Inl err, w1) \<Rightarrow> (Inl err, self, w1)
         | (Inr token_response, w1) \<Rightarrow>
             if status token_response \<noteq> 200 then
               (Inl (VeoliaAPIError Token_API_call_error), self, w1)
             else
               (case response_json token_response of
                  Inl err \<Rightarrow> (Inl err, self, w1)
                | Inr token_data \<Rightarrow>
                    (case py_get token_data ''access_token'' JNull of
                       Inl err \<Rightarrow> (Inl err, self, w1)
                     | Inr tok \<Rightarrow>
                         let self1 = self\<lparr>account_data := (account_data self)\<lparr>access_token := tok\<rparr>\<rparr>
                         in if \<not> truthy tok then
                              (Inl (VeoliaAPIError Access_token_not_found), self1, w1)
                            else
                              (case datetime_now w1 of (now, w2) \<Rightarrow>
                                 (case bind_e (py_get token_data ''expires_in'' (JNum 0))
                                         timedelta_seconds of
                                    Inl err \<Rightarrow> (Inl err, self1, w2)
                                  | Inr secs \<Rightarrow>
                                      (Inr (),
                                       self1\<lparr>account_data :=
                                         (account_data self1)\<lparr>token_expiration := now + secs\<rparr>\<rparr>,
                                       w2))))))"

subsection \<open>The account identifiers\<close>

text \<open>The three prefixes the four reads of the account response share.\<close>

definition first_contact :: "json \<Rightarrow> error + json" where
  "first_contact userdata = bind_e (py_get userdata ''contacts'' JNull) py_index0"

definition first_tiers :: "json \<Rightarrow> error + json" where
  "first_tiers userdata =
     bind_e (first_contact userdata) (\<lambda>c. bind_e (py_get c ''tiers'' JNull) py_index0)"

definition first_abonnement :: "json \<Rightarrow> error + json" where
  "first_abonnement userdata =
     bind_e (first_tiers userdata) (\<lambda>t. bind_e (py_get t ''abonnements'' JNull) py_index0)"

definition bearer :: "env \<Rightarrow> VeoliaAPI \<Rightarrow> (string \<times> string) list" where
  "bearer e self =
     [(''Authorization'', ''Bearer '' @ py_str e (access_token (account_data self)))]"

text \<open>
  The body of \<open>get_client_data\<close> after its call of \<open>check_token\<close> (lines 281 to 336): the
  account request, then the billing request. Each field is assigned as soon as it is
  read, so what was assigned stays when a later read or test raises.
\<close>

definition fetch_client_data ::
  "env \<Rightarrow> VeoliaAPI \<Rightarrow> world \<Rightarrow> (error + unit) \<times> VeoliaAPI \<times> world" where
  "fetch_client_data e self w =
     (let headers = bearer e self;
          req1 = \<lparr>req_method = ''GET'',
                  req_url = BACKEND_ISTEFR @ ''/espace-client?type-front='' @ TYPE_FRONT,
                  req_headers = headers, req_payload = NoPayload\<rparr>
      in case http_request req1 w of
           (Inl err, w1) \<Rightarrow> (Inl err, self, w1)
         | (Inr userdata_response, w1) \<Rightarrow>
         if status userdata_response \<noteq> 200 then
           (Inl (VeoliaAPIError Espace_client_call_error), self, w1)
         else
         (case response_json userdata_response of
            Inl err \<Rightarrow> (Inl err, self, w1)
          | Inr userdata \<Rightarrow>
         (case bind_e (first_abonnement userdata) (\<lambda>a. py_get a ''id_abonnement'' JNull) of
            Inl err \<Rightarrow> (Inl err, self, w1)
          | Inr v1 \<Rightarrow>
         let self1 = self\<lparr>account_data := (account_data self)\<lparr>id_abonnement := v1\<rparr>\<rparr> in
         (case bind_e (first_tiers userdata) (\<lambda>t. py_get t ''id'' JNull) of
            Inl err \<Rightarrow> (Inl err, self1, w1)
          | Inr v2 \<Rightarrow>
         let self2 = self1\<lparr>account_data := (account_data self1)\<lparr>tiers_id := v2\<rparr>\<rparr> in
         (case bind_e (first_contact userdata) (\<lambda>c. py_get c ''id_contact'' JNull) of
            Inl err \<Rightarrow> (Inl err, self2, w1)
          | Inr v3 \<Rightarrow>
         let self3 = self2\<lparr>account_data := (account_data self2)\<lparr>contact_id := v3\<rparr>\<rparr> in
         (case bind_e (first_abonnement userdata) (\<lambda>a. py_get a ''numero_compteur'' JNull) of
            Inl err \<Rightarrow> (Inl err, self3, w1)
          | Inr v4 \<Rightarrow>
         let self4 = self3\<lparr>account_data := (account_data self3)\<lparr>numero_compteur := v4\<rparr>\<rparr> in
         if \<not> truthy v1 \<or> \<not> truthy v2 \<or> \<not> truthy v3 \<or> \<not> truthy v4 then
           (Inl (VeoliaAPIError Some_user_data_not_found), self4, w1)
         else
         (let req2 = \<lparr>req_method = ''GET'',
                      req_url = BACKEND_ISTEFR @ ''/abonnements/'' @ py_str e v1 @ ''/facturation'',
                      req_headers = headers, req_payload = NoPayload\<rparr>
          in case http_request req2 w1 of
               (Inl err, w2) \<Rightarrow> (Inl err, self4, w2)
             | (Inr facturation_response, w2) \<Rightarrow>
             if status facturation_response \<noteq> 200 then
               (Inl (VeoliaAPIError Facturation_call_error), self4, w2)
             else
             (case response_json facturation_response of
                Inl err \<Rightarrow> (Inl err, self4, w2)
              | Inr facturation_data \<Rightarrow>
             (case py_get facturation_data ''numero_pds'' JNull of
                Inl err \<Rightarrow> (Inl err, self4, w2)
              | Inr v5 \<Rightarrow>
             let self5 = self4\<lparr>account_data := (account_data self4)\<lparr>numero_pds := v5\<rparr>\<rparr> in
             if \<not> truthy v5 then (Inl (VeoliaAPIError Numero_pds_not_found), self5, w2)
             else
             (case py_get facturation_data ''date_debut_abonnement'' JNull of
                Inl err \<Rightarrow> (Inl err, self5, w2)
              | Inr v6 \<Rightarrow>
             let self6 = self5\<lparr>account_data :=
                           (account_data self5)\<lparr>date_debut_abonnement := v6\<rparr>\<rparr> in
             if \<not> truthy v6 then
               (Inl (VeoliaAPIError Date_debut_abonnement_not_found), self6, w2)
             else (Inr (), self6, w2)))))))))))"

lemma flow_loop_pending_le:
  "flow_loop e self w n st = (x, self', w') \<Longrightarrow> length (pending w') \<le> length (pending w)"
proof (induction e self w n st rule: flow_loop.induct)
  case (1 e self w next_url state)
  show ?case
  proof (cases "truthy_str next_url")
    case False
    with "1.prems" show ?thesis by simp
  next
    case True
    obtain r s1 w1 where it: "flow_iter e self w (the next_url) state = (r, s1, w1)"
      by (cases "flow_iter e self w (the next_url) state") auto
    have le1: "length (pending w1) \<le> length (pending w)"
      using it by (rule flow_iter_pending_le)
    show ?thesis
    proof (cases r)
      case (Inl err)
      with True it "1.prems" have "w' = w1" by simp
      with le1 show ?thesis by simp
    next
      case (Inr p)
      obtain n1 st1 where p: "p = (n1, st1)" by (cases p) auto
      from True it Inr p "1.prems" have "flow_loop e s1 w1 n1 st1 = (x, self', w')" by simp
      with "1.IH" [OF True it [symmetric, unfolded Inr p] refl refl]
      have "length (pending w') \<le> length (pending w1)" by simp
      with le1 show ?thesis by simp
    qed
  qed
qed

lemma execute_flow_pending_le:
  "execute_flow e self w = (x, self', w') \<Longrightarrow> length (pending w') \<le> length (pending w)"
  unfolding execute_flow_def by (rule flow_loop_pending_le)

lemma get_access_token_pending:
  "get_access_token e self w = (Inr x, self', w') \<Longrightarrow> length (pending w') < length (pending w)"
  by (auto simp: get_access_token_def Let_def datetime_now_def
      split: prod.splits sum.splits if_splits dest!: http_request_pending)

subsection \<open>Login and the token check\<close>

text \<open>
  \<open>login\<close>, \<open>check_token\<close> and \<open>get_client_data\<close> call one another: \<open>login\<close> resolves the
  identifiers with \<open>get_client_data\<close>, which starts with \<open>check_token\<close>, which logs in
  again when the token it finds is missing or expired. Every login consumes a response
  before it comes back to \<open>get_client_data\<close>, so the recursion ends with the responses.
  \<open>check_token\<close> drops the value \<open>login\<close> returns; it reads the clock only when a token
  is present.
\<close>

function
  login :: "env \<Rightarrow> VeoliaAPI \<Rightarrow> world \<Rightarrow> (error + bool) \<times> VeoliaAPI \<times> world" and
  check_token :: "env \<Rightarrow> VeoliaAPI \<Rightarrow> world \<Rightarrow> (error + unit) \<times> VeoliaAPI \<times> world" and
  get_client_data :: "env \<Rightarrow> VeoliaAPI \<Rightarrow> world \<Rightarrow> (error + unit) \<times> VeoliaAPI \<times> world"
where
  "login e self w =
     (if username self = [] \<or> password self = [] then
        (Inl (VeoliaAPIError Username_or_password_not_provided), self, w)
      else
        (case execute_flow e self w of
           (Inl err, self1, w1) \<Rightarrow> (Inl err, self1, w1)
         | (Inr u1, self1, w1) \<Rightarrow>
             (case get_access_token e self1 w1 of
                (Inl err, self2, w2) \<Rightarrow> (Inl err, self2, w2)
              | (Inr u2, self2, w2) \<Rightarrow>
                  (case get_client_data e self2 w2 of
                     (Inl err, self3, w3) \<Rightarrow> (Inl err, self3, w3)
                   | (Inr u3, self3, w3) \<Rightarrow>
                       if truthy (access_token (account_data self3))
                          \<and> truthy (id_abonnement (account_data self3))
                          \<and> truthy (numero_pds (account_data self3))
                          \<and> truthy (contact_id (account_data self3))
                          \<and> truthy (tiers_id (account_data self3))
                          \<and> truthy (numero_compteur (account_data self3))
                          \<and> truthy (date_debut_abonnement (account_data self3))
                       then (Inr True, self3, w3)
                       else (Inr False, self3, w3)))))"
| "check_token e self w =
     (if \<not> truthy (access_token (account_data self)) then
        (case login e self w of
           (Inl err, self1, w1) \<Rightarrow> (Inl err, self1, w1)
         | (Inr b, self1, w1) \<Rightarrow> (Inr (), self1, w1))
      else
        (case datetime_now w of (now, w0) \<Rightarrow>
           if now \<ge> token_expiration (account_data self) then
             (case login e self w0 of
                (Inl err, self1, w1) \<Rightarrow> (Inl err, self1, w1)
              | (Inr b, self1, w1) \<Rightarrow> (Inr (), self1, w1))
           else (Inr (), self, w0)))"
| "get_client_data e self w =
     (case check_token e self w of
        (Inl err, self1, w1) \<Rightarrow> (Inl err, self1, w1)
      | (Inr u, self1, w1) \<Rightarrow> fetch_client_data e self1 w1)"
  by pat_completeness auto
termination
proof (relation "measure (\<lambda>x. case x of
          Inl (e, self, w) \<Rightarrow> 3 * length (pending w)
        | Inr (Inl (e, self, w)) \<Rightarrow> 3 * length (pending w) + 1
        | Inr (Inr (e, self, w)) \<Rightarrow> 3 * length (pending w) + 2)")
  show "wf (measure (\<lambda>x. case x of
          Inl (e, self, w) \<Rightarrow> 3 * length (pending w)
        | Inr (Inl (e, self, w)) \<Rightarrow> 3 * length (pending w) + 1
        | Inr (Inr (e, self, w)) \<Rightarrow> 3 * length (pending w) + 2))"
    by simp
qed (auto simp: datetime_now_def
      dest!: execute_flow_pending_le [OF sym] get_access_token_pending [OF sym])

subsection \<open>Alerts\<close>

text \<open>\<open>alert["valeur"] if alert else None\<close> and
  \<open>alert["moyen_contact"][key] if alert else None\<close>.\<close>

definition alert_threshold :: "json \<Rightarrow> error + json" where
  "alert_threshold alert = (if truthy alert then py_getitem alert ''valeur'' else Inr JNull)"

definition alert_contact :: "json \<Rightarrow> string \<Rightarrow> error + json" where
  "alert_contact alert key =
     (if truthy alert
      then bind_e (py_getitem alert ''moyen_contact'') (\<lambda>m. py_getitem m key)
      else Inr JNull)"

text \<open>
  What \<open>get_alerts\<close> makes of a response with status 200: the keyword arguments are
  evaluated in the order they are written, then \<open>AlertSettings\<close> is called with them.
  The keywords are the ones \<open>veolia_api.py\<close> writes.
\<close>

definition alerts_of_response :: "response \<Rightarrow> error + AlertSettings" where
  "alerts_of_response resp =
     bind_e (response_json resp) (\<lambda>data.
     bind_e (py_getitem data ''seuils'') (\<lambda>seuils.
     bind_e (py_get seuils ''journalier'' JNull) (\<lambda>daily_alert.
     bind_e (py_get seuils ''mensuel'' JNull) (\<lambda>monthly_alert.
     bind_e (alert_threshold daily_alert) (\<lambda>a2.
     bind_e (alert_contact daily_alert ''souscrit_par_email'') (\<lambda>a3.
     bind_e (alert_contact daily_alert ''souscrit_par_mobile'') (\<lambda>a4.
     bind_e (alert_threshold monthly_alert) (\<lambda>a6.
     bind_e (alert_contact monthly_alert ''souscrit_par_email'') (\<lambda>a7.
     bind_e (alert_contact monthly_alert ''souscrit_par_mobile'') (\<lambda>a8.
       AlertSettings_init
         [(''daily_enabled'', JBool (truthy daily_alert)),
          (''daily_threshold'', a2),
          (''daily_contact_email'', a3),
          (''daily_contact_sms'', a4),
          (''monthly_enabled'', JBool (truthy monthly_alert)),
          (''monthly_threshold'', a6),
          (''monthly_contact_email'', a7),
          (''monthly_contact_sms'', a8)]))))))))))"

definition get_alerts ::
  "env \<Rightarrow> VeoliaAPI \<Rightarrow> world \<Rightarrow> (error + AlertSettings) \<times> VeoliaAPI \<times> world" where
  "get_alerts e self w =
     (case check_token e self w of
        (Inl err, self1, w1) \<Rightarrow> (Inl err, self1, w1)
      | (Inr u, self1, w1) \<Rightarrow>
          let req = \<lparr>req_method = ''GET'',
                     req_url = BACKEND_ISTEFR @ ''/alertes/''
                                 @ py_str e (numero_pds (account_data self1)),
                     req_headers = bearer e self1,
                     req_payload = Query [(''abo_id'', id_abonnement (account_data self1))]\<rparr>
          in (case http_request req w1 of
                (Inl err, w2) \<Rightarrow> (Inl err, self1, w2)
              | (Inr resp, w2) \<Rightarrow>
                  if status resp \<noteq> 200 then
                    (Inl (VeoliaAPIError (Get_alerts_call_error (status resp))), self1, w2)
                  else (alerts_of_response resp, self1, w2)))"

text \<open>\<open>d[key] = value\<close> on a dict held as the list of its items.\<close>

fun dict_set :: "string \<Rightarrow> json \<Rightarrow> params \<Rightarrow> params" where
  "dict_set k v [] = [(k, v)]"
| "dict_set k v ((k', v') # kvs) =
     (if k' = k then (k, v) # kvs else (k', v') # dict_set k v kvs)"

text \<open>The entry \<open>set_alerts\<close> writes for one period when the period is enabled. The
  attribute names are the ones \<open>veolia_api.py\<close> reads.\<close>

definition alert_entry ::
  "AlertSettings \<Rightarrow> string \<Rightarrow> string \<Rightarrow> string \<Rightarrow> string \<Rightarrow> error + json" where
  "alert_entry a threshold unite email sms =
     bind_e (AlertSettings_getattr a threshold) (\<lambda>seuil.
     bind_e (AlertSettings_getattr a email) (\<lambda>by_email.
     bind_e (AlertSettings_getattr a sms) (\<lambda>by_mobile.
       Inr (JObj [(''seuil'', seuil),
                  (''unite'', JStr unite),
                  (''souscrite'', JBool True),
                  (''contact_channel'',
                     JObj [(''subscribed_by_email'', by_email),
                           (''subscribed_by_mobile'', by_mobile)])]))))"

text \<open>The payload \<open>set_alerts\<close> builds (lines 454 to 486).\<close>

definition alerts_payload :: "env \<Rightarrow> VeoliaAPI \<Rightarrow> AlertSettings \<Rightarrow> error + params" where
  "alerts_payload e self a =
     bind_e (AlertSettings_getattr a ''daily_enabled'') (\<lambda>d_on.
     bind_e (if truthy d_on
             then bind_e (alert_entry a ''daily_threshold'' ''L''
                            ''daily_contact_email'' ''daily_contact_sms'')
                    (\<lambda>entry. Inr (dict_set ''alerte_journaliere'' entry []))
             else Inr []) (\<lambda>payload1.
     bind_e (AlertSettings_getattr a ''monthly_enabled'') (\<lambda>m_on.
     bind_e (if truthy m_on
             then bind_e (alert_entry a ''monthly_threshold'' ''M3''
                            ''monthly_contact_email'' ''monthly_contact_sms'')
                    (\<lambda>entry. Inr (dict_set ''alerte_mensuelle'' entry payload1))
             else Inr payload1) (\<lambda>payload2.
       Inr (dict_set ''type_front'' (JStr TYPE_FRONT)
           (dict_set ''abo_id'' (JStr (py_str e (id_abonnement (account_data self))))
           (dict_set ''tiers_id'' (tiers_id (account_data self))
           (dict_set ''numero_compteur'' (numero_compteur (account_data self))
           (dict_set ''contact_id'' (contact_id (account_data self)) payload2)))))))))"

definition set_alerts ::
  "env \<Rightarrow> VeoliaAPI \<Rightarrow> AlertSettings \<Rightarrow> world \<Rightarrow> (error + bool) \<times> VeoliaAPI \<times> world" where
  "set_alerts e self a w =
     (case check_token e self w of
        (Inl err, self1, w1) \<Rightarrow> (Inl err, self1, w1)
      | (Inr u, self1, w1) \<Rightarrow>
          (case alerts_payload e self1 a of
             Inl err \<Rightarrow> (Inl err, self1, w1)
           | Inr payload \<Rightarrow>
               let req = \<lparr>req_method = ''POST'',
                          req_url = BACKEND_ISTEFR @ ''/alertes/''
                                      @ py_str e (numero_pds (account_data self1)),
                          req_headers = bearer e self1 @ [(''Content-Type'', ''application/json'')],
                          req_payload = JsonBody (JObj payload)\<rparr>
               in (case http_request req w1 of
                     (Inl err, w2) \<Rightarrow> (Inl err, self1, w2)
                   | (Inr resp, w2) \<Rightarrow> (Inr (status resp = 204), self1, w2))))"

subsection \<open>The states of a flow\<close>

text \<open>
  The states the loop of \<open>execute_flow\<close> passes through, in order, from a given one: the
  client, the world, the step to come and the correlation state at the head of each turn.
  A run of \<open>execute_flow\<close> reaches a step when a state with that step is in the list from
  the initial state.
\<close>

function flow_states ::
  "env \<Rightarrow> VeoliaAPI \<Rightarrow> world \<Rightarrow> string option \<Rightarrow> string option
     \<Rightarrow> (VeoliaAPI \<times> world \<times> string option \<times> string option) list" where
  "flow_states e self w next_url state =
     (self, w, next_url, state) #
     (if truthy_str next_url then
        (case flow_iter e self w (the next_url) state of
           (Inl err, self1, w1) \<Rightarrow> []
         | (Inr (next_url1, state1), self1, w1) \<Rightarrow> flow_states e self1 w1 next_url1 state1)
      else [])"
  by pat_completeness auto
termination
  by (relation "measure (\<lambda>(e, self, w, n, st). length (pending w))")
     (auto dest: flow_iter_pending [OF sym])

declare flow_states.simps [simp del]

text \<open>The URL a turn of the loop requests: the step's URL, with the correlation state
  appended when there is one (lines 132 to 136).\<close>

definition step_url :: "env \<Rightarrow> string \<Rightarrow> string option \<Rightarrow> string" where
  "step_url e n st =
     (if truthy_str st then get_full_url e n @ ''?state='' @ the st else get_full_url e n)"

section \<open>A concrete environment\<close>

text \<open>
  Modelled from the spec: the flow table \<open>API_CONNECTION_FLOW\<close> and the endpoint constants
  that \<open>veolia_api.py\<close> imports and \<open>constants.py\<close> does not define. The spec gives the
  table four steps: authorize, identifier submission and password submission, each
  expected to answer 302, and the callback, whose success is 200; the identifier step
  sends the correlation state and the username, the password step adds the password, the
  callback step sends the state and the authorization code. The paths, the methods and the
  parameter names are sample values, as are \<open>BASE_URL\<close>, \<open>CLIENT_ID\<close>,
  \<open>CODE_CHALLENGE_METHODE\<close>, \<open>OAUTH_TOKEN\<close> and the two library functions; the general
  theorems do not depend on them, they serve the evaluation of concrete runs.
\<close>

fun identifier_params :: "string option list \<Rightarrow> error + params" where
  "identifier_params [st, u] =
     Inr [(''state'', json_of_str st), (''username'', json_of_str u)]"
| "identifier_params _ = Inl TypeError"

fun password_params :: "string option list \<Rightarrow> error + params" where
  "password_params [st, u, p] =
     Inr [(''state'', json_of_str st), (''username'', json_of_str u),
          (''password'', json_of_str p)]"
| "password_params _ = Inl TypeError"

fun callback_params :: "string option list \<Rightarrow> error + params" where
  "callback_params [st, c] =
     Inr [(''state'', json_of_str st), (''code'', json_of_str c)]"
| "callback_params _ = Inl TypeError"

definition spec_flow :: "string \<Rightarrow> flow_config option" where
  "spec_flow next_url =
     (if next_url = ''/authorize'' then
        Some \<lparr>http_method = ''GET'', params_builder = None, success_status = 302\<rparr>
      else if next_url = ''/u/login/identifier'' then
        Some \<lparr>http_method = ''POST'', params_builder = Some identifier_params, success_status = 302\<rparr>
      else if next_url = ''/u/login/password'' then
        Some \<lparr>http_method = ''POST'', params_builder = Some password_params, success_status = 302\<rparr>
      else if next_url = ''/callback'' then
        Some \<lparr>http_method = ''GET'', params_builder = Some callback_params, success_status = 200\<rparr>
      else None)"

definition spec_env :: env where
  "spec_env =
     \<lparr>API_CONNECTION_FLOW = spec_flow,
      AUTHORIZE_ENDPOINT = ''/authorize'',
      LOGIN_IDENTIFIER_ENDPOINT = ''/u/login/identifier'',
      LOGIN_PASSWORD_ENDPOINT = ''/u/login/password'',
      BASE_URL = ''https://base.example'',
      CLIENT_ID = ''client'',
      CODE_CHALLENGE_METHODE = ''S256'',
      OAUTH_TOKEN = ''/oauth/token'',
      hashlib_sha256 = (\<lambda>data. take 32 data),
      str_of = (\<lambda>v. ''?'')\<rparr>"

text \<open>A world with the given responses to come, nothing sent yet, a clock that reads
  100, 101, 102, ... and a random source of zero bytes.\<close>

definition world_of :: "response list \<Rightarrow> world" where
  "world_of rs =
     \<lparr>pending = rs, sent = [], clock = (\<lambda>k. 100 + of_nat k), ticks = 0,
      entropy = (\<lambda>k. replicate 32 0), draws = 0\<rparr>"

definition redirect :: "string \<Rightarrow> (string \<times> string) list \<Rightarrow> response" where
  "redirect p q = \<lparr>status = 302, location = Some \<lparr>path = p, query = q\<rparr>, body = None\<rparr>"

definition answer :: "nat \<Rightarrow> json option \<Rightarrow> response" where
  "answer st b = \<lparr>status = st, location = None, body = b\<rparr>"

text \<open>The four responses of a flow that succeeds: the end-to-end scenario of the spec.\<close>

definition flow_ok :: "response list" where
  "flow_ok =
     [redirect ''/u/login/identifier'' [(''state'', ''S1'')],
      redirect ''/u/login/password'' [(''state'', ''S2'')],
      redirect ''/callback'' [(''code'', ''C'')],
      answer 200 None]"

definition token_ok :: response where
  "token_ok = answer 200 (Some (JObj [(''access_token'', JStr ''T''), (''expires_in'', JNum 3600)]))"

definition account_ok :: response where
  "account_ok = answer 200 (Some (JObj [(''contacts'', JArr [JObj
     [(''id_contact'', JStr ''c1''),
      (''tiers'', JArr [JObj
         [(''id'', JStr ''t1''),
          (''abonnements'', JArr [JObj
             [(''id_abonnement'', JStr ''a1''),
              (''numero_compteur'', JStr ''m1'')]])]])]])]))"

definition billing_ok :: response where
  "billing_ok = answer 200 (Some (JObj [(''numero_pds'', JStr ''p1''),
                                        (''date_debut_abonnement'', JStr ''2020-01-01'')]))"

text \<open>A client that is logged in, with a token that expires at 1000.\<close>

definition logged_in :: VeoliaAPI where
  "logged_in =
     \<lparr>username = ''user'', password = ''secret'',
      account_data = VeoliaAccountData_init
        \<lparr>access_token := JStr ''T'', token_expiration := 1000, code := Some ''C'',
         verifier := Some ''V'', id_abonnement := JStr ''a1'', numero_pds := JStr ''p1'',
         contact_id := JStr ''c1'', tiers_id := JStr ''t1'', numero_compteur := JStr ''m1'',
         date_debut_abonnement := JStr ''2020-01-01''\<rparr>\<rparr>"

definition alerts_without_daily :: response where
  "alerts_without_daily = answer 200 (Some (JObj [(''seuils'', JObj [])]))"

text \<open>Settings made with the constructor of \<open>model.py\<close>: the daily alert on at 100
  litres, the monthly alert off.\<close>

definition daily_on :: AlertSettings where
  "daily_on =
     \<lparr>daily_enabled = JBool True, daily_threshold = JNum 100, daily_notif_email = JBool True,
      daily_notif_sms = JBool False, monthly_enabled = JBool False, monthly_threshold = JNull,
      monthly_notif_email = JNull, monthly_notif_sms = JNull\<rparr>"

definition alerts_off :: AlertSettings where
  "alerts_off =
     \<lparr>daily_enabled = JBool False, daily_threshold = JNull, daily_notif_email = JNull,
      daily_notif_sms = JNull, monthly_enabled = JBool False, monthly_threshold = JNull,
      monthly_notif_email = JNull, monthly_notif_sms = JNull\<rparr>"

text \<open>A client that has not logged in yet, and a world whose clock reads 2000, past the
  expiration of the logged-in client's token.\<close>

definition fresh :: VeoliaAPI where
  "fresh = VeoliaAPI_init ''user'' ''secret''"

definition late :: world where
  "late = (world_of [])\<lparr>clock := (\<lambda>k. 2000)\<rparr>"

text \<open>What \<open>check_token\<close> keeps of a call of \<open>login\<close>: the exception or the normal
  return, the client and the world; the boolean is dropped.\<close>

definition discard :: "(error + 'a) \<times> VeoliaAPI \<times> world \<Rightarrow> (error + unit) \<times> VeoliaAPI \<times> world" where
  "discard r = (case r of (Inl err, s, w) \<Rightarrow> (Inl err, s, w) | (Inr b, s, w) \<Rightarrow> (Inr (), s, w))"



text \<open>A flow whose password step is answered with 400; two more responses stand by.\<close>

definition flow_bad_password :: "response list" where
  "flow_bad_password =
     [redirect ''/u/login/identifier'' [(''state'', ''S1'')],
      redirect ''/u/login/password'' [(''state'', ''S2'')],
      answer 400 None,
      redirect ''/callback'' [(''code'', ''C'')],
      answer 200 None]"


text \<open>An account response whose first contact has no \<open>id_contact\<close>.\<close>

definition account_without_contact_id :: response where
  "account_without_contact_id = answer 200 (Some (JObj [(''contacts'', JArr [JObj
     [(''tiers'', JArr [JObj
         [(''id'', JStr ''t1''),
          (''abonnements'', JArr [JObj
             [(''id_abonnement'', JStr ''a1''),
              (''numero_compteur'', JStr ''m1'')]])]])]])]))"

text \<open>The test \<open>login\<close> makes before it returns \<open>True\<close>: the seven identifiers are
  non-empty.\<close>

definition identifiers_present :: "VeoliaAPI \<Rightarrow> bool" where
  "identifiers_present self =
     (truthy (access_token (account_data self))
      \<and> truthy (id_abonnement (account_data self))
      \<and> truthy (numero_pds (account_data self))
      \<and> truthy (contact_id (account_data self))
      \<and> truthy (tiers_id (account_data self))
      \<and> truthy (numero_compteur (account_data self))
      \<and> truthy (date_debut_abonnement (account_data self)))"



section \<open>Properties\<close>

text \<open>The recursive equations are unfolded by hand, one call at a time.\<close>

declare flow_loop.simps [simp del]
declare login.simps [simp del] check_token.simps [simp del] get_client_data.simps [simp del]

text \<open>The equations that evaluate a run in the concrete environment. The encoding of the
  random bytes is left folded.\<close>

lemmas run_defs = execute_flow_def flow_loop.simps flow_iter_def spec_env_def
        spec_flow_def get_params_def get_authorize_params_def os_urandom_def Let_def
        send_request_def http_request_def CALLBACK_ENDPOINT_def handle_response_def
        world_of_def flow_ok_def redirect_def answer_def fresh_def VeoliaAPI_init_def
        VeoliaAccountData_init_def urlparse_def parse_qs_def call_builder_def get_full_url_def
        login.simps check_token.simps get_client_data.simps get_access_token_def
        fetch_client_data_def response_json_def datetime_now_def token_ok_def account_ok_def
        billing_ok_def first_contact_def first_tiers_def first_abonnement_def bearer_def
        BACKEND_ISTEFR_def TYPE_FRONT_def LOGIN_URL_def


subsection \<open>The authorize step mints its own state\<close>

text \<open>
  Claim C6. The parameter builder of the authorize step ignores the state it is given:
  for any two supplied states (\<open>None\<close> included), in the same world (so with the same
  random bytes) it returns the same parameters, the same client and the same world; and
  the \<open>state\<close> parameter it emits is the encoding of the first draw of 32 random bytes.
\<close>

theorem authorize_params_ignore_state:
  "get_authorize_params e self w st1 = get_authorize_params e self w st2
   \<and> map_of (fst (get_authorize_params e self w st1)) ''state''
       = Some (JStr (base64_url_encode (fst (os_urandom 32 w))))"
  by (simp add: get_authorize_params_def Let_def split: prod.splits)

subsection \<open>Login without credentials\<close>

text \<open>
  Claim C10. When the username or the password of the client is empty, \<open>login\<close> raises
  \<open>VeoliaAPIError("Username or password not provided")\<close> at once: the client (hence every
  field of the account data) and the world (hence the list of requests sent) are what they
  were.
\<close>

theorem login_without_credentials:
  "username self = [] \<or> password self = [] \<Longrightarrow>
   login e self w = (Inl (VeoliaAPIError Username_or_password_not_provided), self, w)"
  by (subst login.simps) simp

theorem login_without_credentials_witness:
  "(username (VeoliaAPI_init [] ''secret'') = [] \<or> password (VeoliaAPI_init [] ''secret'') = [])
   \<and> login spec_env (VeoliaAPI_init [] ''secret'') (world_of flow_ok)
       = (Inl (VeoliaAPIError Username_or_password_not_provided),
          VeoliaAPI_init [] ''secret'', world_of flow_ok)"
  using login_without_credentials [of "VeoliaAPI_init [] ''secret''" spec_env "world_of flow_ok"]
  by (simp add: VeoliaAPI_init_def)

subsection \<open>Alerts\<close>

text \<open>The logged-in client passes the token check without a request: its token expires
  at 1000 and the clock reads 100.\<close>

lemma check_token_logged_in:
  "check_token e logged_in (world_of rs) = (Inr (), logged_in, (world_of rs)\<lparr>ticks := 1\<rparr>)"
  by (subst check_token.simps)
     (simp add: logged_in_def VeoliaAccountData_init_def world_of_def datetime_now_def)

lemma bind_e_never:
  "(\<And>x. f x \<noteq> Inr a) \<Longrightarrow> bind_e m f \<noteq> Inr a"
  by (cases m) auto

text \<open>
  \<open>get_alerts\<close> calls \<open>AlertSettings\<close> with the keywords \<open>daily_contact_email\<close>,
  \<open>daily_contact_sms\<close>, \<open>monthly_contact_email\<close> and \<open>monthly_contact_sms\<close>, and the dataclass of
  \<open>model.py\<close> has no such fields (it names them \<open>daily_notif_email\<close>, \<open>daily_notif_sms\<close>,
  \<open>monthly_notif_email\<close>, \<open>monthly_notif_sms\<close>). The call raises TypeError whatever the
  response holds, so no response makes \<open>get_alerts\<close> return settings.
\<close>

lemma AlertSettings_init_contact_keywords:
  "AlertSettings_init
     [(''daily_enabled'', a1), (''daily_threshold'', a2), (''daily_contact_email'', a3),
      (''daily_contact_sms'', a4), (''monthly_enabled'', a5), (''monthly_threshold'', a6),
      (''monthly_contact_email'', a7), (''monthly_contact_sms'', a8)] = Inl TypeError"
  by (simp add: AlertSettings_init_def AlertSettings_fields_def)

lemma alerts_of_response_never_returns: "alerts_of_response resp \<noteq> Inr a"
  unfolding alerts_of_response_def
  by (intro bind_e_never) (simp add: AlertSettings_init_contact_keywords)

text \<open>
  Claim C7. The alerts endpoint answers 200 with a body whose \<open>seuils\<close> object has no
  \<open>journalier\<close> key, to a client whose token is valid. The claim expects settings with
  \<open>daily_enabled = False\<close> and the other daily fields \<open>None\<close>; \<open>get_alerts\<close> raises TypeError.
\<close>

theorem get_alerts_raises_TypeError:
  "fst (get_alerts spec_env logged_in (world_of [alerts_without_daily])) = Inl TypeError"
  unfolding get_alerts_def check_token_logged_in
  by (simp add: Let_def http_request_def world_of_def
      alerts_without_daily_def answer_def alerts_of_response_def response_json_def
      alert_threshold_def alert_contact_def AlertSettings_init_def AlertSettings_fields_def)

text \<open>
  Claim C8. \<open>set_alerts\<close> is given settings with the daily alert enabled, by a client whose
  token is valid. The claim expects a POST whose payload holds \<open>alerte_journaliere\<close> fully
  populated; \<open>set_alerts\<close> reads \<open>alert_settings.daily_contact_email\<close>, which the dataclass of
  \<open>model.py\<close> does not have, and raises AttributeError before any request: nothing is sent
  and the response stays pending.
\<close>

theorem set_alerts_raises_AttributeError:
  "set_alerts spec_env logged_in daily_on (world_of [answer 204 None])
     = (Inl AttributeError, logged_in, (world_of [answer 204 None])\<lparr>ticks := 1\<rparr>)"
  unfolding set_alerts_def check_token_logged_in
  by (simp add: alerts_payload_def alert_entry_def AlertSettings_getattr_def daily_on_def)

text \<open>
  What holds of \<open>set_alerts\<close>: with both alerts disabled the payload has neither alert
  entry, and whenever the request is answered the result is whether the status is 204.
\<close>

lemma alerts_payload_disabled:
  "\<not> truthy (daily_enabled a) \<Longrightarrow> \<not> truthy (monthly_enabled a) \<Longrightarrow>
   \<exists>payload. alerts_payload e self a = Inr payload
     \<and> map_of payload ''alerte_journaliere'' = None
     \<and> map_of payload ''alerte_mensuelle'' = None"
  by (simp add: alerts_payload_def AlertSettings_getattr_def)

lemma set_alerts_success_iff_204:
  "check_token e self w = (Inr u, self1, w1) \<Longrightarrow> alerts_payload e self1 a = Inr payload \<Longrightarrow>
   pending w1 = resp # rest \<Longrightarrow>
   fst (set_alerts e self a w) = Inr (status resp = 204)
   \<and> (\<exists>req. req_payload req = JsonBody (JObj payload)
         \<and> sent (snd (snd (set_alerts e self a w))) = sent w1 @ [req])"
  by (simp add: set_alerts_def Let_def http_request_def)

subsection \<open>The token check\<close>

text \<open>
  Claim C1. \<open>check_token\<close> calls \<open>login\<close> (flow execution, token exchange, identifier
  resolution) exactly when the access token is absent or the clock reads the stored
  \<open>token_expiration\<close> or later: without a token it is \<open>login\<close> in the same world, with an
  expired token it is \<open>login\<close> after the clock was read. When a token is present and the
  expiration is strictly in the future, it returns with the client unchanged, so every
  field of the account data is what it was, and with nothing sent and no response
  consumed; only the clock was read.
\<close>

theorem check_token_relogin_iff:
  "(\<not> truthy (access_token (account_data self)) \<longrightarrow>
      check_token e self w = discard (login e self w))
   \<and> (truthy (access_token (account_data self))
        \<and> token_expiration (account_data self) \<le> clock w (ticks w) \<longrightarrow>
      check_token e self w = discard (login e self (snd (datetime_now w))))
   \<and> (truthy (access_token (account_data self))
        \<and> clock w (ticks w) < token_expiration (account_data self) \<longrightarrow>
      check_token e self w = (Inr (), self, snd (datetime_now w))
      \<and> sent (snd (datetime_now w)) = sent w
      \<and> pending (snd (datetime_now w)) = pending w)"
  by (subst check_token.simps, subst check_token.simps, subst check_token.simps)
     (auto simp: discard_def datetime_now_def split: prod.splits sum.splits)

text \<open>A login that gets no response: the authorize request is sent and the transport
  raises.\<close>

lemma login_no_response:
  "username self \<noteq> [] \<Longrightarrow> password self \<noteq> [] \<Longrightarrow> pending w = [] \<Longrightarrow>
   fst (login spec_env self w) = Inl ClientError
   \<and> length (sent (snd (snd (login spec_env self w)))) = Suc (length (sent w))"
  apply (simp only: login.simps [of spec_env self w] execute_flow_def)
  apply (simp only: flow_loop.simps [of spec_env self w])
  apply (simp add: flow_iter_def spec_env_def
        spec_flow_def get_params_def get_authorize_params_def os_urandom_def Let_def
        send_request_def http_request_def CALLBACK_ENDPOINT_def split: prod.splits)
  done

theorem check_token_relogin_iff_witness:
  "fst (check_token spec_env fresh (world_of [])) = Inl ClientError
   \<and> length (sent (snd (snd (check_token spec_env fresh (world_of []))))) = 1
   \<and> fst (check_token spec_env logged_in late) = Inl ClientError
   \<and> length (sent (snd (snd (check_token spec_env logged_in late)))) = 1
   \<and> check_token spec_env logged_in (world_of flow_ok)
       = (Inr (), logged_in, (world_of flow_ok)\<lparr>ticks := 1\<rparr>)"
proof -
  have f: "\<not> truthy (access_token (account_data fresh))"
    by (simp add: fresh_def VeoliaAPI_init_def VeoliaAccountData_init_def)
  have l: "truthy (access_token (account_data logged_in))
           \<and> token_expiration (account_data logged_in) \<le> clock late (ticks late)"
    by (simp add: logged_in_def VeoliaAccountData_init_def late_def world_of_def)
  have v: "truthy (access_token (account_data logged_in))
           \<and> clock (world_of flow_ok) (ticks (world_of flow_ok))
               < token_expiration (account_data logged_in)"
    by (simp add: logged_in_def VeoliaAccountData_init_def world_of_def)
  have n1: "fst (login spec_env fresh (world_of [])) = Inl ClientError
     \<and> length (sent (snd (snd (login spec_env fresh (world_of []))))) = Suc (length (sent (world_of [])))"
    by (rule login_no_response) (simp_all add: fresh_def VeoliaAPI_init_def world_of_def)
  have n2: "fst (login spec_env logged_in (snd (datetime_now late))) = Inl ClientError
     \<and> length (sent (snd (snd (login spec_env logged_in (snd (datetime_now late))))))
         = Suc (length (sent (snd (datetime_now late))))"
    by (rule login_no_response)
       (simp_all add: logged_in_def late_def world_of_def datetime_now_def)
  from check_token_relogin_iff [of fresh spec_env "world_of []"] f n1
  have a: "fst (check_token spec_env fresh (world_of [])) = Inl ClientError
     \<and> length (sent (snd (snd (check_token spec_env fresh (world_of []))))) = 1"
    by (auto simp: discard_def world_of_def split: prod.splits sum.splits)
  from check_token_relogin_iff [of logged_in spec_env late] l n2
  have b: "fst (check_token spec_env logged_in late) = Inl ClientError
     \<and> length (sent (snd (snd (check_token spec_env logged_in late)))) = 1"
    by (auto simp: discard_def late_def world_of_def datetime_now_def split: prod.splits sum.splits)
  from check_token_relogin_iff [of logged_in spec_env "world_of flow_ok"] v
  have c: "check_token spec_env logged_in (world_of flow_ok)
       = (Inr (), logged_in, (world_of flow_ok)\<lparr>ticks := 1\<rparr>)"
    by (simp add: datetime_now_def world_of_def)
  from a b c show ?thesis by simp
qed


subsection \<open>The token exchange\<close>




subsection \<open>The flow engine\<close>

text \<open>The loop is tail recursive: from any state it passes through, it ends as it ends
  from the start.\<close>

lemma flow_states_unfold:
  "set (flow_states e self w n st) =
     insert (self, w, n, st)
       (if truthy_str n then
          (case flow_iter e self w (the n) st of
             (Inl err, self1, w1) \<Rightarrow> {}
           | (Inr (n1, st1), self1, w1) \<Rightarrow> set (flow_states e self1 w1 n1 st1))
        else {})"
proof (cases "truthy_str n")
  case False
  then show ?thesis by (subst flow_states.simps) simp
next
  case True
  obtain r s1 w1 where it: "flow_iter e self w (the n) st = (r, s1, w1)"
    by (cases "flow_iter e self w (the n) st") auto
  show ?thesis
  proof (cases r)
    case (Inl err)
    with True it show ?thesis by (subst flow_states.simps) simp
  next
    case (Inr p)
    with True it show ?thesis by (cases p) (subst flow_states.simps, simp)
  qed
qed

lemma flow_loop_from_state:
  "(self, w, n, st) \<in> set (flow_states e self0 w0 n0 st0) \<Longrightarrow>
   flow_loop e self0 w0 n0 st0 = flow_loop e self w n st"
proof (induction e self0 w0 n0 st0 rule: flow_states.induct)
  case (1 e self0 w0 n0 st0)
  show ?case
  proof (cases "(self, w, n, st) = (self0, w0, n0, st0)")
    case True
    then show ?thesis by simp
  next
    case False
    with "1.prems" have t: "truthy_str n0"
      by (simp add: flow_states_unfold [of e self0 w0 n0 st0] split: if_splits)
    obtain r s1 w1 where it: "flow_iter e self0 w0 (the n0) st0 = (r, s1, w1)"
      by (cases "flow_iter e self0 w0 (the n0) st0") auto
    show ?thesis
    proof (cases r)
      case (Inl err)
      with False t it "1.prems" show ?thesis
        by (simp add: flow_states_unfold [of e self0 w0 n0 st0])
    next
      case (Inr p)
      obtain n1 st1 where p: "p = (n1, st1)" by (cases p) auto
      from False t it Inr p "1.prems"
      have "(self, w, n, st) \<in> set (flow_states e s1 w1 n1 st1)"
        by (auto simp: flow_states_unfold [of e self0 w0 n0 st0])
      with "1.IH" [OF t it [symmetric, unfolded Inr p] refl refl]
      have "flow_loop e s1 w1 n1 st1 = flow_loop e self w n st" by simp
      with t it Inr p show ?thesis
        by (simp add: flow_loop.simps [of e self0 w0 n0 st0])
    qed
  qed
qed

lemma send_request_answered:
  assumes m: "m = ''GET'' \<or> m = ''POST''" and p: "pending w = resp # rest"
  shows "\<exists>req. req_url req = u \<and> (req_payload req = Query ps \<or> req_payload req = Form ps)
     \<and> send_request u m ps w = (Inr resp, w\<lparr>pending := rest, sent := sent w @ [req]\<rparr>)"
proof (cases "m = ''GET''")
  case True
  with p show ?thesis
    by (intro exI [of _ "\<lparr>req_method = ''GET'', req_url = u, req_headers = [],
                          req_payload = Query ps\<rparr>"])
       (simp add: send_request_def http_request_def)
next
  case False
  with m p show ?thesis
    by (intro exI [of _ "\<lparr>req_method = ''POST'', req_url = u,
                      req_headers = [(''Content-Type'', ''application/x-www-form-urlencoded''),
                                     (''Cache-Control'', ''no-cache'')],
                      req_payload = Form ps\<rparr>"])
       (simp add: send_request_def http_request_def)
qed

lemma flow_iter_answered:
  assumes cfg: "API_CONNECTION_FLOW e n = Some config"
    and gp: "get_params e self w n config st = (Inr ps, self1, w1)"
    and m: "http_method config = ''GET'' \<or> http_method config = ''POST''"
    and p: "pending w = resp # rest"
  shows "\<exists>req. req_url req = step_url e n st
           \<and> (req_payload req = Query ps \<or> req_payload req = Form ps)
           \<and> flow_iter e self w n st =
               (fst (handle_response e self1 resp n st (step_url e n st)),
                snd (handle_response e self1 resp n st (step_url e n st)),
                w1\<lparr>pending := rest, sent := sent w1 @ [req]\<rparr>)"
proof -
  from gp p have p1: "pending w1 = resp # rest" by (simp add: get_params_pending)
  from send_request_answered [OF m p1, of "step_url e n st" ps]
  obtain req where r: "req_url req = step_url e n st"
      "req_payload req = Query ps \<or> req_payload req = Form ps"
      "send_request (step_url e n st) (http_method config) ps w1
         = (Inr resp, w1\<lparr>pending := rest, sent := sent w1 @ [req]\<rparr>)"
    by blast
  from cfg gp r(3) have "flow_iter e self w n st =
               (fst (handle_response e self1 resp n st (step_url e n st)),
                snd (handle_response e self1 resp n st (step_url e n st)),
                w1\<lparr>pending := rest, sent := sent w1 @ [req]\<rparr>)"
    by (simp add: flow_iter_def step_url_def Let_def split: prod.splits)
  with r(1,2) show ?thesis by blast
qed

lemma handle_response_400_password:
  "status resp = 400 \<Longrightarrow>
   handle_response e self resp (LOGIN_PASSWORD_ENDPOINT e) st u
     = (Inl (VeoliaAPIError Invalid_username_or_password), self)"
  by (simp add: handle_response_def)

text \<open>
  Claim C4. Take any run of \<open>execute_flow\<close> that reaches the password-submission step, and
  let the request of that step be answered with status 400. Then \<open>execute_flow\<close> raises
  \<open>VeoliaAPIError("Invalid username or password")\<close>, whatever success status the flow table
  declares for the step (the test comes before the comparison with the success status),
  and the run ends there: the world it leaves has that one request added to the requests
  sent and the responses after the 400 still pending, so no further step was issued and
  nothing was retried.
\<close>

theorem password_400_invalid_credentials:
  assumes reach: "(self, w, Some (LOGIN_PASSWORD_ENDPOINT e), st)
                    \<in> set (flow_states e self0 w0 (Some (AUTHORIZE_ENDPOINT e)) None)"
    and ne: "LOGIN_PASSWORD_ENDPOINT e \<noteq> []"
    and cfg: "API_CONNECTION_FLOW e (LOGIN_PASSWORD_ENDPOINT e) = Some config"
    and gp: "get_params e self w (LOGIN_PASSWORD_ENDPOINT e) config st = (Inr ps, self1, w1)"
    and m: "http_method config = ''GET'' \<or> http_method config = ''POST''"
    and p: "pending w = resp # rest"
    and bad: "status resp = 400"
  shows "\<exists>req. execute_flow e self0 w0
           = (Inl (VeoliaAPIError Invalid_username_or_password), self1,
              w1\<lparr>pending := rest, sent := sent w1 @ [req]\<rparr>)"
proof -
  from flow_iter_answered [OF cfg gp m p] bad
  obtain req where "flow_iter e self w (LOGIN_PASSWORD_ENDPOINT e) st
      = (Inl (VeoliaAPIError Invalid_username_or_password), self1,
         w1\<lparr>pending := rest, sent := sent w1 @ [req]\<rparr>)"
    by (auto simp: handle_response_400_password)
  with ne have "flow_loop e self w (Some (LOGIN_PASSWORD_ENDPOINT e)) st
      = (Inl (VeoliaAPIError Invalid_username_or_password), self1,
         w1\<lparr>pending := rest, sent := sent w1 @ [req]\<rparr>)"
    by (subst flow_loop.simps) simp
  with flow_loop_from_state [OF reach] show ?thesis
    by (auto simp: execute_flow_def)
qed

text \<open>The run of \<open>flow_bad_password\<close> reaches the password step with the state \<open>S2\<close> of the
  second redirect.\<close>

lemma password_state_reached:
  "\<exists>self w. (self, w, Some ''/u/login/password'', Some ''S2'')
        \<in> set (flow_states spec_env fresh (world_of flow_bad_password) (Some ''/authorize'') None)
     \<and> pending w = [answer 400 None, redirect ''/callback'' [(''code'', ''C'')], answer 200 None]
     \<and> length (sent w) = 2
     \<and> get_params spec_env self w ''/u/login/password''
          \<lparr>http_method = ''POST'', params_builder = Some password_params, success_status = 302\<rparr>
          (Some ''S2'')
        = (Inr [(''state'', JStr ''S2''), (''username'', JStr ''user''),
                (''password'', JStr ''secret'')], self, w)"
  by (simp add: flow_states_unfold run_defs flow_bad_password_def)

theorem password_400_invalid_credentials_witness:
  "fst (execute_flow spec_env fresh (world_of flow_bad_password))
     = Inl (VeoliaAPIError Invalid_username_or_password)
   \<and> pending (snd (snd (execute_flow spec_env fresh (world_of flow_bad_password))))
     = [redirect ''/callback'' [(''code'', ''C'')], answer 200 None]
   \<and> length (sent (snd (snd (execute_flow spec_env fresh (world_of flow_bad_password))))) = 3"
proof -
  from password_state_reached obtain self w where
    r: "(self, w, Some (LOGIN_PASSWORD_ENDPOINT spec_env), Some ''S2'')
          \<in> set (flow_states spec_env fresh (world_of flow_bad_password)
                   (Some (AUTHORIZE_ENDPOINT spec_env)) None)"
    and p: "pending w = answer 400 None # [redirect ''/callback'' [(''code'', ''C'')], answer 200 None]"
    and l: "length (sent w) = 2"
    and g: "get_params spec_env self w (LOGIN_PASSWORD_ENDPOINT spec_env)
          \<lparr>http_method = ''POST'', params_builder = Some password_params, success_status = 302\<rparr>
          (Some ''S2'')
        = (Inr [(''state'', JStr ''S2''), (''username'', JStr ''user''),
                (''password'', JStr ''secret'')], self, w)"
    by (auto simp: spec_env_def)
  have ne: "LOGIN_PASSWORD_ENDPOINT spec_env \<noteq> []" by (simp add: spec_env_def)
  have cfg: "API_CONNECTION_FLOW spec_env (LOGIN_PASSWORD_ENDPOINT spec_env)
     = Some \<lparr>http_method = ''POST'', params_builder = Some password_params, success_status = 302\<rparr>"
    by (simp add: spec_env_def spec_flow_def)
  have m: "http_method \<lparr>http_method = ''POST'', params_builder = Some password_params,
                         success_status = 302\<rparr> = ''GET''
         \<or> http_method \<lparr>http_method = ''POST'', params_builder = Some password_params,
                         success_status = 302\<rparr> = ''POST''" by simp
  have bad: "status (answer 400 None) = 400" by (simp add: answer_def)
  from password_400_invalid_credentials [OF r ne cfg g m p bad] l
  show ?thesis by auto
qed

subsection \<open>Responses with status 200\<close>

text \<open>
  A 200 to a step other than the callback ends the flow with a \<open>VeoliaAPIError\<close>: the
  status-mismatch error when the step declares another success status, the
  unexpected-200 error when it declares 200. A 200 to the callback step, whose success
  status is 200, completes the flow.
\<close>

lemma flow_loop_200_elsewhere:
  assumes cfg: "API_CONNECTION_FLOW e n = Some config"
    and gp: "get_params e self w n config st = (Inr ps, self1, w1)"
    and m: "http_method config = ''GET'' \<or> http_method config = ''POST''"
    and p: "pending w = resp # rest"
    and ok: "status resp = 200"
    and n: "n \<noteq> CALLBACK_ENDPOINT" "n \<noteq> []"
  shows "\<exists>req. flow_loop e self w (Some n) st
           = (Inl (VeoliaAPIError
                (if success_status config = 200 then Unexpected_200_response (step_url e n st)
                 else API_call_failed (step_url e n st) 200)),
              self1, w1\<lparr>pending := rest, sent := sent w1 @ [req]\<rparr>)"
proof -
  from cfg ok n have "handle_response e self1 resp n st (step_url e n st)
      = (Inl (VeoliaAPIError
                (if success_status config = 200 then Unexpected_200_response (step_url e n st)
                 else API_call_failed (step_url e n st) 200)), self1)"
    by (simp add: handle_response_def)
  with flow_iter_answered [OF cfg gp m p] n show ?thesis
    by (subst flow_loop.simps) auto
qed

lemma flow_loop_200_callback:
  assumes cfg: "API_CONNECTION_FLOW e CALLBACK_ENDPOINT = Some config"
    and s: "success_status config = 200"
    and gp: "get_params e self w CALLBACK_ENDPOINT config st = (Inr ps, self1, w1)"
    and m: "http_method config = ''GET'' \<or> http_method config = ''POST''"
    and p: "pending w = resp # rest"
    and ok: "status resp = 200"
  shows "\<exists>req. flow_loop e self w (Some CALLBACK_ENDPOINT) st
           = (Inr (), self1, w1\<lparr>pending := rest, sent := sent w1 @ [req]\<rparr>)"
proof -
  from cfg ok s have "handle_response e self1 resp CALLBACK_ENDPOINT st (step_url e CALLBACK_ENDPOINT st)
      = (Inr (None, st), self1)"
    by (simp add: handle_response_def)
  with flow_iter_answered [OF cfg gp m p] show ?thesis
    by (subst flow_loop.simps, subst flow_loop.simps) (auto simp: CALLBACK_ENDPOINT_def)
qed


subsection \<open>What login returns\<close>

text \<open>
  \<open>get_access_token\<close> returns only with a non-empty token, and the two requests of
  \<open>get_client_data\<close> return only with the six other identifiers non-empty, leaving the
  token as it was.
\<close>

lemma get_access_token_Inr:
  "get_access_token e self w = (Inr u, self', w') \<Longrightarrow> truthy (access_token (account_data self'))"
  by (auto simp: get_access_token_def Let_def datetime_now_def
      split: prod.splits sum.splits if_splits)

lemma fetch_client_data_Inr:
  "fetch_client_data e self w = (Inr u, self', w') \<Longrightarrow>
   access_token (account_data self') = access_token (account_data self)
   \<and> truthy (id_abonnement (account_data self'))
   \<and> truthy (numero_pds (account_data self'))
   \<and> truthy (contact_id (account_data self'))
   \<and> truthy (tiers_id (account_data self'))
   \<and> truthy (numero_compteur (account_data self'))
   \<and> truthy (date_debut_abonnement (account_data self'))"
  unfolding fetch_client_data_def Let_def
  by (simp split: prod.splits sum.splits if_splits) auto


lemma login_results:
  "\<forall>b self' w'. login e self w = (Inr b, self', w') \<longrightarrow> b \<and> identifiers_present self'"
  "\<forall>u self' w'. check_token e self w = (Inr u, self', w')
       \<longrightarrow> truthy (access_token (account_data self'))"
  "\<forall>u self' w'. get_client_data e self w = (Inr u, self', w') \<longrightarrow> identifiers_present self'"
proof (induction e self w and e self w and e self w
       rule: login_check_token_get_client_data.induct)
  case (1 e self w)
  show ?case
  proof (intro allI impI)
    fix b self' w'
    assume r: "login e self w = (Inr b, self', w')"
    then have c: "username self \<noteq> [] \<and> password self \<noteq> []"
      by (subst (asm) login.simps) (auto split: if_splits)
    obtain r1 s1 w1 where ef: "execute_flow e self w = (r1, s1, w1)"
      by (cases "execute_flow e self w") auto
    from r c ef obtain u1 where r1: "r1 = Inr u1"
      by (subst (asm) login.simps) (cases r1, auto)
    obtain r2 s2 w2 where gt: "get_access_token e s1 w1 = (r2, s2, w2)"
      by (cases "get_access_token e s1 w1") auto
    from r c ef r1 gt obtain u2 where r2: "r2 = Inr u2"
      by (subst (asm) login.simps) (cases r2, auto)
    obtain r3 s3 w3 where gc: "get_client_data e s2 w2 = (r3, s3, w3)"
      by (cases "get_client_data e s2 w2") auto
    from r c ef r1 gt r2 gc obtain u3 where r3: "r3 = Inr u3"
      by (subst (asm) login.simps) (cases r3, auto)
    from c have c': "\<not> (username self = [] \<or> password self = [])" by simp
    from "1.IH" [OF c' ef [symmetric, unfolded r1] refl refl
                    gt [symmetric, unfolded r2] refl refl] gc r3
    have ip: "identifiers_present s3" by simp
    from r c ef r1 gt r2 gc r3 ip show "b \<and> identifiers_present self'"
      by (subst (asm) login.simps) (auto simp: identifiers_present_def)
  qed
next
  case (2 e self w)
  show ?case
  proof (intro allI impI)
    fix u self' w'
    assume r: "check_token e self w = (Inr u, self', w')"
    show "truthy (access_token (account_data self'))"
    proof (cases "truthy (access_token (account_data self))")
      case False
      with r "2.IH"(1) show ?thesis
        by (subst (asm) check_token.simps)
           (auto simp: identifiers_present_def split: prod.splits sum.splits)
    next
      case True
      obtain now w0 where d: "datetime_now w = (now, w0)" by (cases "datetime_now w") auto
      show ?thesis
      proof (cases "now \<ge> token_expiration (account_data self)")
        case False
        with True d r show ?thesis
          by (subst (asm) check_token.simps) auto
      next
        case ex: True
        have nt: "\<not> \<not> truthy (access_token (account_data self))" using True by simp
        from "2.IH"(2) [OF nt d [symmetric] ex] True d ex r show ?thesis
          by (subst (asm) check_token.simps)
             (auto simp: identifiers_present_def split: prod.splits sum.splits)
      qed
    qed
  qed
next
  case (3 e self w)
  show ?case
  proof (intro allI impI)
    fix u self' w'
    assume r: "get_client_data e self w = (Inr u, self', w')"
    obtain r1 s1 w1 where ct: "check_token e self w = (r1, s1, w1)"
      by (cases "check_token e self w") auto
    from r ct obtain u1 where r1: "r1 = Inr u1"
      by (subst (asm) get_client_data.simps) (cases r1, auto)
    from "3.IH" ct r1 have t: "truthy (access_token (account_data s1))" by simp
    from r ct r1 have "fetch_client_data e s1 w1 = (Inr u, self', w')"
      by (subst (asm) get_client_data.simps) simp
    from fetch_client_data_Inr [OF this] t show "identifiers_present self'"
      by (simp add: identifiers_present_def)
  qed
qed

text \<open>
  Claim C3, as the code has it. Whenever \<open>login\<close> returns, it returns \<open>True\<close> and the seven
  identifiers (\<open>access_token\<close>, \<open>id_abonnement\<close>, \<open>numero_pds\<close>, \<open>contact_id\<close>, \<open>tiers_id\<close>,
  \<open>numero_compteur\<close>, \<open>date_debut_abonnement\<close>) are non-empty. An identifier that comes out
  empty makes \<open>get_access_token\<close> or \<open>get_client_data\<close> raise, and \<open>login\<close> lets the exception
  through: it never returns \<open>False\<close>.
\<close>

theorem login_returns_only_True:
  "login e self w = (Inr b, self', w') \<Longrightarrow> b \<and> identifiers_present self'"
  using login_results(1) by blast


theorem login_returns_only_True_witness:
  "fst (login spec_env fresh (world_of (flow_ok @ [token_ok, account_ok, billing_ok]))) = Inr True
   \<and> identifiers_present
        (fst (snd (login spec_env fresh (world_of (flow_ok @ [token_ok, account_ok, billing_ok])))))"
proof -
  let ?r = "login spec_env fresh (world_of (flow_ok @ [token_ok, account_ok, billing_ok]))"
  have a: "fst ?r = Inr True"
    by (simp add: run_defs split: prod.splits)
  then have "?r = (Inr True, fst (snd ?r), snd (snd ?r))"
    by (metis prod.collapse)
  from login_returns_only_True [OF this] a show ?thesis by simp
qed

text \<open>
  Claim C3, as stated, has \<open>login\<close> return \<open>False\<close> rather than raise when an identifier is
  empty. Here the flow and the token exchange succeed and the account response lacks
  \<open>id_contact\<close>: \<open>contact_id\<close> is left empty and \<open>login\<close> raises
  \<open>VeoliaAPIError("Some user data not found in the response")\<close>.
\<close>

theorem login_raises_on_missing_identifier:
  "fst (login spec_env fresh (world_of (flow_ok @ [token_ok, account_without_contact_id, billing_ok])))
     = Inl (VeoliaAPIError Some_user_data_not_found)
   \<and> contact_id (account_data (fst (snd (login spec_env fresh
         (world_of (flow_ok @ [token_ok, account_without_contact_id, billing_ok])))))) = JNull"
  by (simp add: run_defs account_without_contact_id_def split: prod.splits)

subsection \<open>The correlation state\<close>










end
